theory Spec2Isabelle
  imports Complex_Main
begin

section \<open>The chat proxy handler of \<^verbatim>\<open>api/chat.js\<close>\<close>

text \<open>
  The repository is one asynchronous request handler,
  \<^verbatim>\<open>module.exports = async (req, res) => ...\<close>. It is embedded as a function from
  what the handler reads (the request, the process environment, the answers of the
  upstream service) to what it does (the calls it issues, the response it writes).
  Logging through \<^verbatim>\<open>console\<close> touches neither and is left out. Every awaited promise
  is taken to settle (the model has rejections, not hangs, except for a body stream that
  never ends), and the methods of the response object are taken not to throw.
\<close>

subsection \<open>JavaScript values\<close>

text \<open>
  The request body is whatever the platform parsed from the JSON of the request, so no
  value in it is a function. Numbers
  are only tested for truthiness and handed on, never computed with, so a number is the
  rational it denotes; \<^verbatim>\<open>-0\<close> and \<^verbatim>\<open>NaN\<close>, falsy like \<^verbatim>\<open>0\<close>, are not
  told apart from it. An object is the list of its own properties in insertion order.
\<close>

datatype jsval =
    JUndefined
  | JNull
  | JBool bool
  | JNum rat
  | JStr string
  | JArr "jsval list"
  | JObj "(string \<times> jsval) list"

text \<open>ToBoolean, as \<^verbatim>\<open>!x\<close>, \<^verbatim>\<open>x || y\<close>, \<^verbatim>\<open>x && y\<close> and \<^verbatim>\<open>if (x)\<close> apply it.\<close>

fun truthy :: "jsval \<Rightarrow> bool" where
  "truthy JUndefined = False"
| "truthy JNull = False"
| "truthy (JBool b) = b"
| "truthy (JNum n) = (n \<noteq> 0)"
| "truthy (JStr s) = (s \<noteq> [])"
| "truthy (JArr xs) = True"
| "truthy (JObj kvs) = True"

text \<open>\<^verbatim>\<open>a || b\<close>: the left operand when it is truthy, the right one otherwise.\<close>

definition jsOr :: "jsval \<Rightarrow> jsval \<Rightarrow> jsval" where
  "jsOr a b = (if truthy a then a else b)"

text \<open>
  Reading one of the destructured properties (\<^verbatim>\<open>model\<close>, \<^verbatim>\<open>messages\<close>, ...,
  \<^verbatim>\<open>tool_choice\<close>) of a value that is neither \<^verbatim>\<open>undefined\<close> nor \<^verbatim>\<open>null\<close>: an
  object yields its property or \<^verbatim>\<open>undefined\<close>; strings, arrays, numbers and booleans
  have no property of these names.
\<close>

fun getProp :: "jsval \<Rightarrow> string \<Rightarrow> jsval" where
  "getProp (JObj kvs) k = (case map_of kvs k of Some v \<Rightarrow> v | None \<Rightarrow> JUndefined)"
| "getProp v k = JUndefined"

text \<open>
  ToString, as \<^verbatim>\<open>Array.prototype.join\<close> applies it to the elements of an array
  (\<^verbatim>\<open>undefined\<close> and \<^verbatim>\<open>null\<close> elements give the empty string there). An object
  is converted by its \<^verbatim>\<open>toString\<close> and \<^verbatim>\<open>valueOf\<close>: an object parsed from
  JSON inherits both unless it owns a property of that name, which is then not callable.
  The inherited \<^verbatim>\<open>toString\<close> gives \<^verbatim>\<open>[object Object]\<close>, the inherited
  \<^verbatim>\<open>valueOf\<close> gives the object back, which is no primitive; so the conversion
  throws a TypeError (\<open>None\<close>) exactly when the object owns a \<^verbatim>\<open>toString\<close>
  property. An array is converted by joining its elements with commas. How the engine
  prints a number is the parameter \<open>ns\<close>.
\<close>

fun jsToString :: "(rat \<Rightarrow> string) \<Rightarrow> jsval \<Rightarrow> string option"
  and joinElements :: "(rat \<Rightarrow> string) \<Rightarrow> jsval list \<Rightarrow> string option" where
  "jsToString ns JUndefined = Some ''undefined''"
| "jsToString ns JNull = Some ''null''"
| "jsToString ns (JBool b) = Some (if b then ''true'' else ''false'')"
| "jsToString ns (JNum n) = Some (ns n)"
| "jsToString ns (JStr s) = Some s"
| "jsToString ns (JArr xs) = joinElements ns xs"
| "jsToString ns (JObj kvs) =
     (if map_of kvs ''toString'' = None then Some ''[object Object]'' else None)"
| "joinElements ns [] = Some []"
| "joinElements ns (x # xs) =
     (case (if x = JUndefined \<or> x = JNull then Some [] else jsToString ns x) of
        None \<Rightarrow> None
      | Some s \<Rightarrow>
          if xs = [] then Some s
          else (case joinElements ns xs of None \<Rightarrow> None | Some t \<Rightarrow> Some (s @ '','' @ t)))"

text \<open>
  \<^verbatim>\<open>x > 0\<close> on an arbitrary value compares \<^verbatim>\<open>ToNumber(ToPrimitive(x))\<close> with
  zero: \<^verbatim>\<open>undefined\<close> is NaN, \<^verbatim>\<open>null\<close> is 0, a boolean is 0 or 1. A string is
  read as a number, and whether that number is positive is the parameter \<open>sp\<close>. An
  array becomes the string of its joined elements first, which may throw. An object that
  owns a \<^verbatim>\<open>toString\<close> property throws a TypeError (\<open>None\<close>); any other object
  becomes \<^verbatim>\<open>[object Object]\<close>, which is NaN.
\<close>

fun gtZero :: "(rat \<Rightarrow> string) \<Rightarrow> (string \<Rightarrow> bool) \<Rightarrow> jsval \<Rightarrow> bool option" where
  "gtZero ns sp JUndefined = Some False"
| "gtZero ns sp JNull = Some False"
| "gtZero ns sp (JBool b) = Some b"
| "gtZero ns sp (JNum n) = Some (0 < n)"
| "gtZero ns sp (JStr s) = Some (sp s)"
| "gtZero ns sp (JArr xs) = map_option sp (joinElements ns xs)"
| "gtZero ns sp (JObj kvs) = (if map_of kvs ''toString'' = None then Some False else None)"

text \<open>
  \<^verbatim>\<open>tools.length > 0\<close>, evaluated only when \<^verbatim>\<open>tools\<close> is truthy (so never on
  \<^verbatim>\<open>undefined\<close> or \<^verbatim>\<open>null\<close>, where the property read would throw): arrays and
  strings have a length, an object may own a property called \<^verbatim>\<open>length\<close>, numbers
  and booleans have none. \<open>None\<close> is the TypeError of the comparison.
\<close>

fun lengthPositive :: "(rat \<Rightarrow> string) \<Rightarrow> (string \<Rightarrow> bool) \<Rightarrow> jsval \<Rightarrow> bool option" where
  "lengthPositive ns sp (JArr xs) = Some (xs \<noteq> [])"
| "lengthPositive ns sp (JStr s) = Some (s \<noteq> [])"
| "lengthPositive ns sp (JObj kvs) = gtZero ns sp (getProp (JObj kvs) ''length'')"
| "lengthPositive ns sp v = Some False"

text \<open>
  \<^verbatim>\<open>tools && tools.length > 0\<close>, as lines 44 and 63 test it: its truthiness, or the
  TypeError.
\<close>

definition toolsEnabled :: "(rat \<Rightarrow> string) \<Rightarrow> (string \<Rightarrow> bool) \<Rightarrow> jsval \<Rightarrow> bool option" where
  "toolsEnabled ns sp tools = (if truthy tools then lengthPositive ns sp tools else Some False)"

text \<open>\<^verbatim>\<open>String.prototype.includes\<close>.\<close>

fun startsWith :: "string \<Rightarrow> string \<Rightarrow> bool" where
  "startsWith s [] = True"
| "startsWith [] (p # ps) = False"
| "startsWith (c # cs) (p # ps) = (c = p \<and> startsWith cs ps)"

fun str_includes :: "string \<Rightarrow> string \<Rightarrow> bool" where
  "str_includes [] p = (p = [])"
| "str_includes (c # cs) p = (startsWith (c # cs) p \<or> str_includes cs p)"

subsection \<open>The request, the response object and the upstream\<close>

record request =
  reqMethod :: string
  reqBody :: jsval

text \<open>
  The response object \<^verbatim>\<open>res\<close>: the status code (200 until set), the headers set with
  \<^verbatim>\<open>setHeader\<close>, the body given to \<^verbatim>\<open>json\<close>, the chunks given to \<^verbatim>\<open>write\<close> in
  order, and whether the response has been ended.
\<close>

record res =
  statusCode :: nat
  headers :: "string \<rightharpoonup> string"
  jsonBody :: "jsval option"
  written :: "string list"
  ended :: bool

definition newRes :: res where
  "newRes = \<lparr>statusCode = 200, headers = Map.empty, jsonBody = None, written = [], ended = False\<rparr>"

definition res_setHeader :: "string \<Rightarrow> string \<Rightarrow> res \<Rightarrow> res" where
  "res_setHeader k v r = r\<lparr>headers := (headers r)(k \<mapsto> v)\<rparr>"

definition res_status :: "nat \<Rightarrow> res \<Rightarrow> res" where
  "res_status c r = r\<lparr>statusCode := c\<rparr>"

definition res_json :: "jsval \<Rightarrow> res \<Rightarrow> res" where
  "res_json v r = r\<lparr>jsonBody := Some v, ended := True\<rparr>"

definition res_write :: "string \<Rightarrow> res \<Rightarrow> res" where
  "res_write s r = r\<lparr>written := written r @ [s]\<rparr>"

definition res_end :: "res \<Rightarrow> res" where
  "res_end r = r\<lparr>ended := True\<rparr>"

text \<open>
  What \<^verbatim>\<open>await reader.read()\<close> gives: the next chunk of bytes, the end of the stream,
  or a rejection. The upstream's body is the sequence of these answers, read by index; it
  need not ever end.
\<close>

datatype readResult = Chunk string | Done | ReadFails string

text \<open>
  The upstream's response as the handler uses it: \<^verbatim>\<open>status\<close>; \<^verbatim>\<open>await text()\<close> and
  \<^verbatim>\<open>await json()\<close>, each a value or the message of the error it rejects with; and
  \<^verbatim>\<open>body\<close>, a stream or \<^verbatim>\<open>null\<close>. \<^verbatim>\<open>ok\<close> is the fetch standard's: a status from
  200 to 299.
\<close>

record fetchResponse =
  status :: nat
  textResult :: "string + string"
  jsonResult :: "string + jsval"
  bodyStream :: "(nat \<Rightarrow> readResult) option"

definition ok :: "fetchResponse \<Rightarrow> bool" where
  "ok r = (200 \<le> status r \<and> status r \<le> 299)"

datatype fetchOutcome = Rejects string | Resolves fetchResponse

text \<open>One call of \<^verbatim>\<open>fetch\<close>; \<open>payload\<close> is the object whose JSON text is the body.\<close>

record fetchCall =
  url :: string
  callMethod :: string
  callHeaders :: "(string \<times> string) list"
  payload :: "(string \<times> jsval) list"

text \<open>
  What the handler reads besides the request: the environment variable
  \<^verbatim>\<open>FIREWORKS_API_KEY\<close> (\<open>None\<close> when unset), the upstream's answer to a call, and
  pieces of the platform: the messages of the TypeErrors raised on destructuring
  \<^verbatim>\<open>undefined\<close> or \<^verbatim>\<open>null\<close>, on reading a property of them and on converting
  an object to a primitive; how a number is printed and whether a string reads as a
  positive number; and the streaming \<^verbatim>\<open>TextDecoder\<close> (its fresh state and
  \<^verbatim>\<open>decode(value, {stream: true})\<close>, which returns the text and the next state).
\<close>

record 'd env =
  apiKey :: "string option"
  fetch :: "fetchCall \<Rightarrow> fetchOutcome"
  destructureError :: string
  propertyReadError :: string
  primitiveError :: string
  numberToString :: "rat \<Rightarrow> string"
  stringPositive :: "string \<Rightarrow> bool"
  decoderInit :: 'd
  decode :: "'d \<Rightarrow> string \<Rightarrow> string \<times> 'd"

text \<open>
  What a run of the handler does: the upstream calls it issued, and the response once the
  handler has finished with it (\<open>None\<close> when the relay loop never ends).
\<close>

record outcome =
  upstreamCalls :: "fetchCall list"
  response :: "res option"

text \<open>How the \<^verbatim>\<open>try\<close> block ends: it returns, or it throws at some state.\<close>

datatype completion = Returned outcome | Thrown string res "fetchCall list"

subsection \<open>The handler\<close>

text \<open>Lines 3 to 5.\<close>

definition cors :: "res \<Rightarrow> res" where
  "cors r =
     res_setHeader ''Access-Control-Allow-Headers'' ''Content-Type, Authorization''
       (res_setHeader ''Access-Control-Allow-Methods'' ''GET, POST, OPTIONS''
         (res_setHeader ''Access-Control-Allow-Origin'' ''*'' r))"

text \<open>\<^verbatim>\<open>!apiKey\<close> is false exactly for a set, non-empty variable.\<close>

fun keyOf :: "string option \<Rightarrow> string option" where
  "keyOf None = None"
| "keyOf (Some k) = (if k = [] then None else Some k)"

text \<open>
  Lines 49 to 68: \<^verbatim>\<open>fireworksPayload\<close>, with the tools attached; \<open>None\<close> when the
  test of line 63 throws.
\<close>

definition fireworksPayload ::
  "(rat \<Rightarrow> string) \<Rightarrow> (string \<Rightarrow> bool) \<Rightarrow> jsval \<Rightarrow> (string \<times> jsval) list option" where
  "fireworksPayload ns sp b =
     (let tools = getProp b ''tools'';
          tool_choice = getProp b ''tool_choice'';
          p = [(''model'', getProp b ''model''),
               (''messages'', getProp b ''messages''),
               (''temperature'', jsOr (getProp b ''temperature'') (JNum (3 / 10))),
               (''top_p'', jsOr (getProp b ''top_p'') (JNum (9 / 10))),
               (''top_k'', jsOr (getProp b ''top_k'') (JNum 40)),
               (''max_tokens'', jsOr (getProp b ''max_tokens'') (JNum 8192)),
               (''presence_penalty'', jsOr (getProp b ''presence_penalty'') (JNum 0)),
               (''frequency_penalty'', jsOr (getProp b ''frequency_penalty'') (JNum 0)),
               (''stream'', jsOr (getProp b ''stream'') (JBool False))]
      in case toolsEnabled ns sp tools of
           None \<Rightarrow> None
         | Some enabled \<Rightarrow>
             Some (if enabled
                   then (if truthy tool_choice
                         then p @ [(''tools'', tools), (''tool_choice'', tool_choice)]
                         else p @ [(''tools'', tools)])
                   else p))"

text \<open>Lines 70 to 74, and line 78 on the streaming path.\<close>

definition fireworksHeaders :: "string \<Rightarrow> bool \<Rightarrow> (string \<times> string) list" where
  "fireworksHeaders key streaming =
     [(''Authorization'', ''Bearer '' @ key),
      (''Content-Type'', ''application/json''),
      (''User-Agent'', ''Advanced-CoD-Studio/1.0'')]
     @ (if streaming then [(''Accept'', ''text/event-stream'')] else [])"

text \<open>The call of lines 80 to 84 and 139 to 143, for a payload already built.\<close>

definition fireworksCall :: "string \<Rightarrow> bool \<Rightarrow> (string \<times> jsval) list \<Rightarrow> fetchCall" where
  "fireworksCall key streaming p =
     \<lparr>url = ''https://api.fireworks.ai/inference/v1/chat/completions'',
      callMethod = ''POST'',
      callHeaders = fireworksHeaders key streaming,
      payload = p\<rparr>"

text \<open>Lines 91 to 98: the message of a failed streaming call.\<close>

definition streamingErrorMessage :: "nat \<Rightarrow> string \<Rightarrow> string" where
  "streamingErrorMessage st errorText =
     (if st = 429 then ''Rate limit exceeded. DeepSeek-V3-0324 has usage limits.''
      else if st = 401 then ''Invalid API key or insufficient permissions for DeepSeek-V3-0324.''
      else if st = 400 then ''Invalid request format for DeepSeek-V3-0324. Check parameters.''
      else errorText)"

text \<open>Lines 150 to 159: the message of a failed non-streaming call.\<close>

definition nonStreamingErrorMessage :: "nat \<Rightarrow> string \<Rightarrow> string" where
  "nonStreamingErrorMessage st errorText =
     (if st = 429 then ''Rate limit exceeded. DeepSeek-V3-0324 has usage limits.''
      else if st = 401 then ''Invalid API key or insufficient permissions for DeepSeek-V3-0324.''
      else if st = 400 then ''Invalid request format for DeepSeek-V3-0324. Check parameters.''
      else if st = 503 then ''DeepSeek-V3-0324 service temporarily unavailable. Try again later.''
      else errorText)"

definition apiRequestFailed :: "string \<Rightarrow> jsval" where
  "apiRequestFailed errorMessage =
     JObj [(''error'', JStr ''API request failed''), (''message'', JStr errorMessage)]"

definition syntheticErrorEvent :: string where
  \<open>syntheticErrorEvent = ''data: {"error": "Streaming interrupted"}\<newline>\<newline>''\<close>

text \<open>
  Lines 122 to 135: the relay loop inside its own \<^verbatim>\<open>try\<close>. Each read that yields a
  chunk decodes and writes it; the end of the stream ends the response; a read that
  rejects writes the synthetic event and ends the response. \<open>None\<close> is a loop that
  never ends.
\<close>

partial_function (option) relayLoop ::
  "('d \<Rightarrow> string \<Rightarrow> string \<times> 'd) \<Rightarrow> (nat \<Rightarrow> readResult) \<Rightarrow> nat \<Rightarrow> 'd \<Rightarrow> res \<Rightarrow> res option" where
  "relayLoop dec rd i d r =
     (case rd i of
        Done \<Rightarrow> Some (res_end r)
      | ReadFails e \<Rightarrow> Some (res_end (res_write syntheticErrorEvent r))
      | Chunk v \<Rightarrow> relayLoop dec rd (Suc i) (snd (dec d v)) (res_write (fst (dec d v)) r))"

text \<open>Lines 106 to 112.\<close>

definition streamingHeaders :: "res \<Rightarrow> res" where
  "streamingHeaders r =
     res_setHeader ''Access-Control-Allow-Headers'' ''Content-Type''
       (res_setHeader ''Access-Control-Allow-Methods'' ''GET, POST, OPTIONS''
         (res_setHeader ''Access-Control-Allow-Origin'' ''*''
           (res_setHeader ''Connection'' ''keep-alive''
             (res_setHeader ''Cache-Control'' ''no-cache''
               (res_setHeader ''Content-Type'' ''text/event-stream'' r)))))"

text \<open>Lines 77 to 135: the streaming branch.\<close>

definition streamingBranch :: "'d env \<Rightarrow> fetchCall \<Rightarrow> res \<Rightarrow> completion" where
  "streamingBranch e c r =
     (case fetch e c of
        Rejects msg \<Rightarrow> Thrown msg r [c]
      | Resolves resp \<Rightarrow>
          if \<not> ok resp then
            (case textResult resp of
               Inl msg \<Rightarrow> Thrown msg r [c]
             | Inr errorText \<Rightarrow>
                 Returned \<lparr>upstreamCalls = [c],
                   response = Some (res_json
                     (apiRequestFailed (streamingErrorMessage (status resp) errorText))
                     (res_status (status resp) r))\<rparr>)
          else
            (case bodyStream resp of
               None \<Rightarrow>
                 Returned \<lparr>upstreamCalls = [c],
                   response = Some (res_json
                     (JObj [(''error'', JStr ''No response body from DeepSeek-V3-0324 API'')])
                     (res_status 500 (streamingHeaders r)))\<rparr>
             | Some rd \<Rightarrow>
                 Returned \<lparr>upstreamCalls = [c],
                   response = relayLoop (decode e) rd 0 (decoderInit e) (streamingHeaders r)\<rparr>))"

text \<open>
  Lines 138 to 179: the non-streaming branch. On success the decoded body is relayed, after
  \<^verbatim>\<open>data.usage\<close> has been read for the log: a read that throws when the body
  decodes to \<^verbatim>\<open>null\<close>.
\<close>

definition nonStreamingBranch :: "'d env \<Rightarrow> fetchCall \<Rightarrow> res \<Rightarrow> completion" where
  "nonStreamingBranch e c r =
     (case fetch e c of
        Rejects msg \<Rightarrow> Thrown msg r [c]
      | Resolves resp \<Rightarrow>
          if \<not> ok resp then
            (case textResult resp of
               Inl msg \<Rightarrow> Thrown msg r [c]
             | Inr errorText \<Rightarrow>
                 Returned \<lparr>upstreamCalls = [c],
                   response = Some (res_json
                     (apiRequestFailed (nonStreamingErrorMessage (status resp) errorText))
                     (res_status (status resp) r))\<rparr>)
          else
            (case jsonResult resp of
               Inl msg \<Rightarrow> Thrown msg r [c]
             | Inr data \<Rightarrow>
                 if data = JNull \<or> data = JUndefined
                 then Thrown (propertyReadError e) r [c]
                 else Returned \<lparr>upstreamCalls = [c],
                        response = Some (res_json data (res_status 200 r))\<rparr>))"

text \<open>
  Lines 17 to 180: the body of the outer \<^verbatim>\<open>try\<close>. After the validation, line 44
  evaluates the test of \<^verbatim>\<open>tools\<close> for the log, and line 63 evaluates it again for
  the payload; either may throw.
\<close>

definition tryBlock :: "'d env \<Rightarrow> request \<Rightarrow> res \<Rightarrow> completion" where
  "tryBlock e req r =
     (case keyOf (apiKey e) of
        None \<Rightarrow>
          Returned \<lparr>upstreamCalls = [],
            response = Some (res_json
              (JObj [(''error'', JStr ''Server configuration error''),
                     (''message'', JStr ''API key not configured. Please check server environment variables.'')])
              (res_status 500 r))\<rparr>
      | Some key \<Rightarrow>
          if reqBody req = JUndefined \<or> reqBody req = JNull
          then Thrown (destructureError e) r []
          else if \<not> truthy (getProp (reqBody req) ''model'')
                  \<or> \<not> truthy (getProp (reqBody req) ''messages'')
          then
            Returned \<lparr>upstreamCalls = [],
              response = Some (res_json
                (JObj [(''error'', JStr ''Bad request''),
                       (''message'', JStr ''Missing required fields: model and messages'')])
                (res_status 400 r))\<rparr>
          else
            (case toolsEnabled (numberToString e) (stringPositive e)
                    (getProp (reqBody req) ''tools'') of
               None \<Rightarrow> Thrown (primitiveError e) r []
             | Some logged \<Rightarrow>
                 (case fireworksPayload (numberToString e) (stringPositive e) (reqBody req) of
                    None \<Rightarrow> Thrown (primitiveError e) r []
                  | Some p \<Rightarrow>
                      if truthy (getProp (reqBody req) ''stream'')
                      then streamingBranch e (fireworksCall key True p) r
                      else nonStreamingBranch e (fireworksCall key False p) r)))"

text \<open>Lines 181 to 196: the outer \<^verbatim>\<open>catch\<close>.\<close>

definition catchBlock :: "string \<Rightarrow> res \<Rightarrow> res" where
  "catchBlock msg r =
     res_json
       (JObj [(''error'', JStr ''Internal server error''),
              (''message'', JStr
                 (if str_includes msg ''fetch''
                  then ''Network error connecting to DeepSeek-V3-0324. Check your internet connection.''
                  else if str_includes msg ''timeout''
                  then ''Request timeout with DeepSeek-V3-0324. The model may be processing a complex request.''
                  else msg))])
       (res_status 500 r)"

text \<open>The handler, on a fresh response object.\<close>

definition handler :: "'d env \<Rightarrow> request \<Rightarrow> outcome" where
  "handler e req =
     (if reqMethod req = ''OPTIONS''
      then \<lparr>upstreamCalls = [], response = Some (res_end (res_status 200 (cors newRes)))\<rparr>
      else if reqMethod req \<noteq> ''POST''
      then \<lparr>upstreamCalls = [],
            response = Some (res_json (JObj [(''error'', JStr ''Method not allowed'')])
                               (res_status 405 (cors newRes)))\<rparr>
      else (case tryBlock e req (cors newRes) of
              Returned oc \<Rightarrow> oc
            | Thrown msg r calls \<Rightarrow>
                \<lparr>upstreamCalls = calls, response = Some (catchBlock msg r)\<rparr>))"

subsection \<open>What the relay is expected to write, and a sample environment\<close>

text \<open>
  The texts a decoder yields for a sequence of chunks taken in arrival order, its state
  threaded from one chunk to the next: what the relay should have written after them.
\<close>

fun decodeAll :: "('d \<Rightarrow> string \<Rightarrow> string \<times> 'd) \<Rightarrow> 'd \<Rightarrow> string list \<Rightarrow> string list" where
  "decodeAll dec d [] = []"
| "decodeAll dec d (v # vs) = fst (dec d v) # decodeAll dec (snd (dec d v)) vs"

text \<open>
  A concrete environment for the examples: a given key, an upstream that gives the same
  answer to every call, the messages of V8, and a decoder without state that maps bytes
  to themselves (as UTF-8 decoding does on ASCII). No example converts a number to a
  string or a string to a number, so the two conversions are stand-ins here.
\<close>

definition sampleEnv :: "string option \<Rightarrow> fetchOutcome \<Rightarrow> unit env" where
  "sampleEnv k out =
     \<lparr>apiKey = k, fetch = (\<lambda>c. out),
      destructureError = ''Cannot destructure property 'model' of 'req.body' as it is undefined.'',
      propertyReadError = ''Cannot read properties of null (reading 'usage')'',
      primitiveError = ''Cannot convert object to primitive value'',
      numberToString = (\<lambda>n. []), stringPositive = (\<lambda>s. False),
      decoderInit = (), decode = (\<lambda>d bytes. (bytes, d))\<rparr>"

text \<open>An upstream response with the given status, error text and body stream.\<close>

definition sampleResponse :: "nat \<Rightarrow> string \<Rightarrow> (nat \<Rightarrow> readResult) option \<Rightarrow> fetchResponse" where
  "sampleResponse st t b =
     \<lparr>status = st, textResult = Inr t, jsonResult = Inr (JObj [(''id'', JStr ''cmpl-1'')]),
      bodyStream = b\<rparr>"

text \<open>A POST request with the two required fields and the given further properties.\<close>

definition samplePost :: "(string \<times> jsval) list \<Rightarrow> request" where
  "samplePost extra =
     \<lparr>reqMethod = ''POST'',
      reqBody = JObj ([(''model'', JStr ''deepseek-v3''),
                       (''messages'', JArr [JObj [(''role'', JStr ''user''), (''content'', JStr ''hi'')]])]
                      @ extra)\<rparr>"

text \<open>A body stream for the examples: the given chunks, then the given last answer.\<close>

definition streamOf :: "string list \<Rightarrow> readResult \<Rightarrow> nat \<Rightarrow> readResult" where
  "streamOf vs fin i = (if i < length vs then Chunk (vs ! i) else fin)"

section \<open>Properties\<close>

subsection \<open>The response object\<close>

lemma res_statusCode [simp]:
  "statusCode (res_status c r) = c"
  "statusCode (res_json v r) = statusCode r"
  "statusCode (res_end r) = statusCode r"
  "statusCode (res_write s r) = statusCode r"
  "statusCode (res_setHeader k x r) = statusCode r"
  "statusCode newRes = 200"
  by (simp_all add: res_status_def res_json_def res_end_def res_write_def res_setHeader_def newRes_def)

lemma res_headers [simp]:
  "headers (res_status c r) = headers r"
  "headers (res_json v r) = headers r"
  "headers (res_end r) = headers r"
  "headers (res_write s r) = headers r"
  "headers (res_setHeader k x r) = (headers r)(k \<mapsto> x)"
  by (simp_all add: res_status_def res_json_def res_end_def res_write_def res_setHeader_def)

lemma res_jsonBody [simp]:
  "jsonBody (res_status c r) = jsonBody r"
  "jsonBody (res_json v r) = Some v"
  "jsonBody (res_end r) = jsonBody r"
  "jsonBody (res_write s r) = jsonBody r"
  "jsonBody (res_setHeader k x r) = jsonBody r"
  "jsonBody newRes = None"
  by (simp_all add: res_status_def res_json_def res_end_def res_write_def res_setHeader_def newRes_def)

lemma res_ended [simp]:
  "ended (res_status c r) = ended r"
  "ended (res_json v r) = True"
  "ended (res_end r) = True"
  "ended (res_write s r) = ended r"
  "ended (res_setHeader k x r) = ended r"
  by (simp_all add: res_status_def res_json_def res_end_def res_write_def res_setHeader_def)

lemma res_written [simp]:
  "written (res_status c r) = written r"
  "written (res_json v r) = written r"
  "written (res_end r) = written r"
  "written (res_write s r) = written r @ [s]"
  "written (res_setHeader k x r) = written r"
  "written newRes = []"
  by (simp_all add: res_status_def res_json_def res_end_def res_write_def res_setHeader_def newRes_def)

lemma cors_fields [simp]:
  "statusCode (cors r) = statusCode r"
  "jsonBody (cors r) = jsonBody r"
  "written (cors r) = written r"
  "ended (cors r) = ended r"
  by (simp_all add: cors_def)

lemma streamingHeaders_fields [simp]:
  "statusCode (streamingHeaders r) = statusCode r"
  "jsonBody (streamingHeaders r) = jsonBody r"
  "written (streamingHeaders r) = written r"
  "ended (streamingHeaders r) = ended r"
  by (simp_all add: streamingHeaders_def)

lemma cors_headers:
  "headers (cors r) ''Access-Control-Allow-Origin'' = Some ''*''"
  "headers (cors r) ''Access-Control-Allow-Methods'' = Some ''GET, POST, OPTIONS''"
  "headers (cors r) ''Access-Control-Allow-Headers'' = Some ''Content-Type, Authorization''"
  by (simp_all add: cors_def)

lemma streamingHeaders_headers:
  "headers (streamingHeaders r) ''Access-Control-Allow-Origin'' = Some ''*''"
  "headers (streamingHeaders r) ''Access-Control-Allow-Methods'' = Some ''GET, POST, OPTIONS''"
  "headers (streamingHeaders r) ''Access-Control-Allow-Headers'' = Some ''Content-Type''"
  "headers (streamingHeaders r) ''Content-Type'' = Some ''text/event-stream''"
  "headers (streamingHeaders r) ''Cache-Control'' = Some ''no-cache''"
  "headers (streamingHeaders r) ''Connection'' = Some ''keep-alive''"
  by (simp_all add: streamingHeaders_def)

lemma catchBlock_fields [simp]:
  "statusCode (catchBlock msg r) = 500"
  "headers (catchBlock msg r) = headers r"
  "ended (catchBlock msg r) = True"
  "written (catchBlock msg r) = written r"
  by (simp_all add: catchBlock_def)

lemma relayLoop_frame:
  assumes "relayLoop dec rd i d r = Some r'"
  shows "headers r' = headers r \<and> statusCode r' = statusCode r \<and> jsonBody r' = jsonBody r \<and> ended r'"
  by (rule relayLoop.raw_induct[where P = "\<lambda>dec rd i d r r'. headers r' = headers r \<and> statusCode r' = statusCode r \<and> jsonBody r' = jsonBody r \<and> ended r'", OF _ assms])
     (auto split: readResult.splits)

lemma keyOf_Some: "keyOf k = Some key \<longleftrightarrow> k = Some key \<and> key \<noteq> []"
  by (cases k) auto

lemma keyOf_None: "keyOf k = None \<longleftrightarrow> k = None \<or> k = Some []"
  by (cases k) auto

lemma truthy_getProp_body: "truthy (getProp b k) \<Longrightarrow> b \<noteq> JUndefined \<and> b \<noteq> JNull"
  by auto

text \<open>The paths through the handler.\<close>

lemma handler_cases [case_names options not_allowed no_key no_body bad_request tools_throw fetch_rejects
    text_rejects stream_error plain_error stream_no_body stream_relay json_rejects json_null
    plain_success]:
  fixes e :: "'d env" and req :: request
  obtains
    "reqMethod req = ''OPTIONS''"
    "handler e req = \<lparr>upstreamCalls = [], response = Some (res_end (res_status 200 (cors newRes)))\<rparr>"
  | "reqMethod req \<noteq> ''OPTIONS''" "reqMethod req \<noteq> ''POST''"
    "handler e req = \<lparr>upstreamCalls = [],
       response = Some (res_json (JObj [(''error'', JStr ''Method not allowed'')])
                          (res_status 405 (cors newRes)))\<rparr>"
  | "reqMethod req = ''POST''" "keyOf (apiKey e) = None"
    "handler e req = \<lparr>upstreamCalls = [],
       response = Some (res_json
         (JObj [(''error'', JStr ''Server configuration error''),
                (''message'', JStr ''API key not configured. Please check server environment variables.'')])
         (res_status 500 (cors newRes)))\<rparr>"
  | key where "reqMethod req = ''POST''" "keyOf (apiKey e) = Some key"
    "reqBody req = JUndefined \<or> reqBody req = JNull"
    "handler e req = \<lparr>upstreamCalls = [],
       response = Some (catchBlock (destructureError e) (cors newRes))\<rparr>"
  | key where "reqMethod req = ''POST''" "keyOf (apiKey e) = Some key"
    "reqBody req \<noteq> JUndefined" "reqBody req \<noteq> JNull"
    "\<not> (truthy (getProp (reqBody req) ''model'') \<and> truthy (getProp (reqBody req) ''messages''))"
    "handler e req = \<lparr>upstreamCalls = [],
       response = Some (res_json
         (JObj [(''error'', JStr ''Bad request''),
                (''message'', JStr ''Missing required fields: model and messages'')])
         (res_status 400 (cors newRes)))\<rparr>"
  | key where "reqMethod req = ''POST''" "keyOf (apiKey e) = Some key"
    "truthy (getProp (reqBody req) ''model'')" "truthy (getProp (reqBody req) ''messages'')"
    "toolsEnabled (numberToString e) (stringPositive e) (getProp (reqBody req) ''tools'') = None"
    "handler e req = \<lparr>upstreamCalls = [],
       response = Some (catchBlock (primitiveError e) (cors newRes))\<rparr>"
  | key p c msg where "reqMethod req = ''POST''" "keyOf (apiKey e) = Some key"
    "truthy (getProp (reqBody req) ''model'')" "truthy (getProp (reqBody req) ''messages'')"
    "fireworksPayload (numberToString e) (stringPositive e) (reqBody req) = Some p"
    "c = fireworksCall key (truthy (getProp (reqBody req) ''stream'')) p"
    "fetch e c = Rejects msg"
    "handler e req = \<lparr>upstreamCalls = [c], response = Some (catchBlock msg (cors newRes))\<rparr>"
  | key p c resp msg where "reqMethod req = ''POST''" "keyOf (apiKey e) = Some key"
    "truthy (getProp (reqBody req) ''model'')" "truthy (getProp (reqBody req) ''messages'')"
    "fireworksPayload (numberToString e) (stringPositive e) (reqBody req) = Some p"
    "c = fireworksCall key (truthy (getProp (reqBody req) ''stream'')) p"
    "fetch e c = Resolves resp" "\<not> ok resp" "textResult resp = Inl msg"
    "handler e req = \<lparr>upstreamCalls = [c], response = Some (catchBlock msg (cors newRes))\<rparr>"
  | key p c resp errorText where "reqMethod req = ''POST''" "keyOf (apiKey e) = Some key"
    "truthy (getProp (reqBody req) ''model'')" "truthy (getProp (reqBody req) ''messages'')"
    "truthy (getProp (reqBody req) ''stream'')"
    "fireworksPayload (numberToString e) (stringPositive e) (reqBody req) = Some p"
    "c = fireworksCall key (truthy (getProp (reqBody req) ''stream'')) p"
    "fetch e c = Resolves resp" "\<not> ok resp" "textResult resp = Inr errorText"
    "handler e req = \<lparr>upstreamCalls = [c],
       response = Some (res_json (apiRequestFailed (streamingErrorMessage (status resp) errorText))
                          (res_status (status resp) (cors newRes)))\<rparr>"
  | key p c resp errorText where "reqMethod req = ''POST''" "keyOf (apiKey e) = Some key"
    "truthy (getProp (reqBody req) ''model'')" "truthy (getProp (reqBody req) ''messages'')"
    "\<not> truthy (getProp (reqBody req) ''stream'')"
    "fireworksPayload (numberToString e) (stringPositive e) (reqBody req) = Some p"
    "c = fireworksCall key (truthy (getProp (reqBody req) ''stream'')) p"
    "fetch e c = Resolves resp" "\<not> ok resp" "textResult resp = Inr errorText"
    "handler e req = \<lparr>upstreamCalls = [c],
       response = Some (res_json (apiRequestFailed (nonStreamingErrorMessage (status resp) errorText))
                          (res_status (status resp) (cors newRes)))\<rparr>"
  | key p c resp where "reqMethod req = ''POST''" "keyOf (apiKey e) = Some key"
    "truthy (getProp (reqBody req) ''model'')" "truthy (getProp (reqBody req) ''messages'')"
    "truthy (getProp (reqBody req) ''stream'')"
    "fireworksPayload (numberToString e) (stringPositive e) (reqBody req) = Some p"
    "c = fireworksCall key (truthy (getProp (reqBody req) ''stream'')) p"
    "fetch e c = Resolves resp" "ok resp" "bodyStream resp = None"
    "handler e req = \<lparr>upstreamCalls = [c],
       response = Some (res_json (JObj [(''error'', JStr ''No response body from DeepSeek-V3-0324 API'')])
                          (res_status 500 (streamingHeaders (cors newRes))))\<rparr>"
  | key p c resp rd where "reqMethod req = ''POST''" "keyOf (apiKey e) = Some key"
    "truthy (getProp (reqBody req) ''model'')" "truthy (getProp (reqBody req) ''messages'')"
    "truthy (getProp (reqBody req) ''stream'')"
    "fireworksPayload (numberToString e) (stringPositive e) (reqBody req) = Some p"
    "c = fireworksCall key (truthy (getProp (reqBody req) ''stream'')) p"
    "fetch e c = Resolves resp" "ok resp" "bodyStream resp = Some rd"
    "handler e req = \<lparr>upstreamCalls = [c],
       response = relayLoop (decode e) rd 0 (decoderInit e) (streamingHeaders (cors newRes))\<rparr>"
  | key p c resp msg where "reqMethod req = ''POST''" "keyOf (apiKey e) = Some key"
    "truthy (getProp (reqBody req) ''model'')" "truthy (getProp (reqBody req) ''messages'')"
    "\<not> truthy (getProp (reqBody req) ''stream'')"
    "fireworksPayload (numberToString e) (stringPositive e) (reqBody req) = Some p"
    "c = fireworksCall key (truthy (getProp (reqBody req) ''stream'')) p"
    "fetch e c = Resolves resp" "ok resp" "jsonResult resp = Inl msg"
    "handler e req = \<lparr>upstreamCalls = [c], response = Some (catchBlock msg (cors newRes))\<rparr>"
  | key p c resp data where "reqMethod req = ''POST''" "keyOf (apiKey e) = Some key"
    "truthy (getProp (reqBody req) ''model'')" "truthy (getProp (reqBody req) ''messages'')"
    "\<not> truthy (getProp (reqBody req) ''stream'')"
    "fireworksPayload (numberToString e) (stringPositive e) (reqBody req) = Some p"
    "c = fireworksCall key (truthy (getProp (reqBody req) ''stream'')) p"
    "fetch e c = Resolves resp" "ok resp" "jsonResult resp = Inr data"
    "data = JNull \<or> data = JUndefined"
    "handler e req = \<lparr>upstreamCalls = [c],
       response = Some (catchBlock (propertyReadError e) (cors newRes))\<rparr>"
  | key p c resp data where "reqMethod req = ''POST''" "keyOf (apiKey e) = Some key"
    "truthy (getProp (reqBody req) ''model'')" "truthy (getProp (reqBody req) ''messages'')"
    "\<not> truthy (getProp (reqBody req) ''stream'')"
    "fireworksPayload (numberToString e) (stringPositive e) (reqBody req) = Some p"
    "c = fireworksCall key (truthy (getProp (reqBody req) ''stream'')) p"
    "fetch e c = Resolves resp" "ok resp" "jsonResult resp = Inr data"
    "data \<noteq> JNull" "data \<noteq> JUndefined"
    "handler e req = \<lparr>upstreamCalls = [c], response = Some (res_json data (res_status 200 (cors newRes)))\<rparr>"
proof (cases "reqMethod req = ''OPTIONS''")
  case True
  then show ?thesis using that(1) by (simp add: handler_def)
next
  case notOptions: False
  show ?thesis
  proof (cases "reqMethod req = ''POST''")
    case False
    then show ?thesis using notOptions that(2) by (simp add: handler_def)
  next
    case post: True
    show ?thesis
    proof (cases "keyOf (apiKey e)")
      case None
      then show ?thesis using post that(3) by (simp add: handler_def tryBlock_def)
    next
      case key: (Some key)
      show ?thesis
      proof (cases "reqBody req = JUndefined \<or> reqBody req = JNull")
        case True
        then show ?thesis using post key that(4)[of key] by (simp add: handler_def tryBlock_def)
      next
        case body: False
        show ?thesis
        proof (cases "truthy (getProp (reqBody req) ''model'') \<and> truthy (getProp (reqBody req) ''messages'')")
          case False
          then show ?thesis using post key body that(5)[of key] by (simp add: handler_def tryBlock_def)
        next
          case valid: True
          show ?thesis
          proof (cases "toolsEnabled (numberToString e) (stringPositive e) (getProp (reqBody req) ''tools'')")
            case None
            then show ?thesis using post key body valid that(6)[of key]
              by (simp add: handler_def tryBlock_def)
          next
            case tools: (Some enabled)
            then obtain p where
              p: "fireworksPayload (numberToString e) (stringPositive e) (reqBody req) = Some p"
              by (simp add: fireworksPayload_def Let_def)
            define c where "c = fireworksCall key (truthy (getProp (reqBody req) ''stream'')) p"
            show ?thesis
            proof (cases "truthy (getProp (reqBody req) ''stream'')")
              case stream: True
              have h: "handler e req = (case streamingBranch e c (cors newRes) of Returned oc \<Rightarrow> oc
                   | Thrown msg r calls \<Rightarrow> \<lparr>upstreamCalls = calls, response = Some (catchBlock msg r)\<rparr>)"
                using post key body valid tools p stream by (simp add: handler_def tryBlock_def c_def)
              show ?thesis
              proof (cases "fetch e c")
                case (Rejects msg)
                then show ?thesis using h post key valid p c_def that(7)[of key p c msg]
                  by (simp add: streamingBranch_def)
              next
                case (Resolves resp)
                show ?thesis
                proof (cases "ok resp")
                  case False
                  show ?thesis
                  proof (cases "textResult resp")
                    case (Inl msg)
                    then show ?thesis
                      using h post key valid p c_def Resolves False that(8)[of key p c resp msg]
                      by (simp add: streamingBranch_def)
                  next
                    case (Inr errorText)
                    then show ?thesis
                      using h post key valid stream p c_def Resolves False
                        that(9)[of key p c resp errorText]
                      by (simp add: streamingBranch_def)
                  qed
                next
                  case True
                  show ?thesis
                  proof (cases "bodyStream resp")
                    case None
                    then show ?thesis
                      using h post key valid stream p c_def Resolves True that(11)[of key p c resp]
                      by (simp add: streamingBranch_def)
                  next
                    case (Some rd)
                    then show ?thesis
                      using h post key valid stream p c_def Resolves True that(12)[of key p c resp rd]
                      by (simp add: streamingBranch_def)
                  qed
                qed
              qed
            next
              case plain: False
              have h: "handler e req = (case nonStreamingBranch e c (cors newRes) of Returned oc \<Rightarrow> oc
                   | Thrown msg r calls \<Rightarrow> \<lparr>upstreamCalls = calls, response = Some (catchBlock msg r)\<rparr>)"
                using post key body valid tools p plain by (simp add: handler_def tryBlock_def c_def)
              show ?thesis
              proof (cases "fetch e c")
                case (Rejects msg)
                then show ?thesis using h post key valid p c_def that(7)[of key p c msg]
                  by (simp add: nonStreamingBranch_def)
              next
                case (Resolves resp)
                show ?thesis
                proof (cases "ok resp")
                  case False
                  show ?thesis
                  proof (cases "textResult resp")
                    case (Inl msg)
                    then show ?thesis
                      using h post key valid p c_def Resolves False that(8)[of key p c resp msg]
                      by (simp add: nonStreamingBranch_def)
                  next
                    case (Inr errorText)
                    then show ?thesis
                      using h post key valid plain p c_def Resolves False
                        that(10)[of key p c resp errorText]
                      by (simp add: nonStreamingBranch_def)
                  qed
                next
                  case True
                  show ?thesis
                  proof (cases "jsonResult resp")
                    case (Inl msg)
                    then show ?thesis
                      using h post key valid plain p c_def Resolves True that(13)[of key p c resp msg]
                      by (simp add: nonStreamingBranch_def)
                  next
                    case (Inr data)
                    show ?thesis
                    proof (cases "data = JNull \<or> data = JUndefined")
                      case True
                      then show ?thesis
                        using h post key valid plain p c_def Resolves \<open>ok resp\<close> Inr
                          that(14)[of key p c resp data]
                        by (simp add: nonStreamingBranch_def)
                    next
                      case False
                      then show ?thesis
                        using h post key valid plain p c_def Resolves \<open>ok resp\<close> Inr
                          that(15)[of key p c resp data]
                        by (simp add: nonStreamingBranch_def)
                    qed
                  qed
                qed
              qed
            qed
          qed
        qed
      qed
    qed
  qed
qed

subsection \<open>The call of a valid request and its payload\<close>

lemmas sample_defs = sampleEnv_def samplePost_def sampleResponse_def

lemmas handler_defs = handler_def tryBlock_def streamingBranch_def nonStreamingBranch_def
  fireworksCall_def fireworksPayload_def toolsEnabled_def ok_def catchBlock_def
  apiRequestFailed_def Let_def

text \<open>The test of \<^verbatim>\<open>tools\<close> never throws on an array, or when \<^verbatim>\<open>tools\<close> is falsy.\<close>

lemma toolsEnabled_array [simp]: "toolsEnabled ns sp (JArr xs) = Some (xs \<noteq> [])"
  by (simp add: toolsEnabled_def)

lemma toolsEnabled_falsy [simp]: "\<not> truthy tools \<Longrightarrow> toolsEnabled ns sp tools = Some False"
  by (simp add: toolsEnabled_def)

lemma fireworksPayload_None:
  "fireworksPayload ns sp b = None \<longleftrightarrow> toolsEnabled ns sp (getProp b ''tools'') = None"
  by (simp add: fireworksPayload_def Let_def split: option.splits)

text \<open>
  A POST request with both required fields, under a configured key, is answered with
  exactly one upstream call unless the test of \<^verbatim>\<open>tools\<close> throws; then with none.
\<close>

lemma valid_post_calls:
  assumes "reqMethod req = ''POST''"
    and "apiKey e = Some key" and "key \<noteq> []"
    and "truthy (getProp (reqBody req) ''model'')"
    and "truthy (getProp (reqBody req) ''messages'')"
    and "toolsEnabled (numberToString e) (stringPositive e) (getProp (reqBody req) ''tools'') = Some t"
  shows "\<exists>p. fireworksPayload (numberToString e) (stringPositive e) (reqBody req) = Some p \<and>
             upstreamCalls (handler e req) =
               [fireworksCall key (truthy (getProp (reqBody req) ''stream'')) p]"
  by (cases rule: handler_cases[of req e]) (use assms in \<open>auto simp: keyOf_Some keyOf_None\<close>)

lemma throwing_tools_no_call:
  assumes "reqMethod req = ''POST''"
    and "apiKey e = Some key" and "key \<noteq> []"
    and "truthy (getProp (reqBody req) ''model'')"
    and "truthy (getProp (reqBody req) ''messages'')"
    and "toolsEnabled (numberToString e) (stringPositive e) (getProp (reqBody req) ''tools'') = None"
  shows "handler e req =
         \<lparr>upstreamCalls = [], response = Some (catchBlock (primitiveError e) (cors newRes))\<rparr>"
proof -
  have none: "fireworksPayload (numberToString e) (stringPositive e) (reqBody req) = None"
    using assms(6) by (simp add: fireworksPayload_None)
  show ?thesis
    by (cases rule: handler_cases[of req e])
       (use assms none in \<open>auto simp: keyOf_Some keyOf_None\<close>)
qed

text \<open>
  For instance \<^verbatim>\<open>tools: {"length": {"valueOf": 0, "toString": 0}}\<close>: the comparison
  of line 44 cannot convert the length to a primitive, and the request, valid otherwise,
  is answered by the outer \<^verbatim>\<open>catch\<close> without any upstream call.
\<close>

lemma throwing_tools_example:
  "handler (sampleEnv (Some ''sk-test'') (Rejects ''never asked''))
     (samplePost [(''temperature'', JNum 0),
        (''tools'', JObj [(''length'', JObj [(''valueOf'', JNum 0), (''toString'', JNum 0)])])]) =
   \<lparr>upstreamCalls = [],
    response = Some (res_json
      (JObj [(''error'', JStr ''Internal server error''),
             (''message'', JStr ''Cannot convert object to primitive value'')])
      (res_status 500 (cors newRes)))\<rparr>"
  by (simp add: handler_defs sample_defs)

text \<open>Every call the handler issues is the call of lines 80 or 139 for the payload built.\<close>

lemma issued_call:
  assumes "c \<in> set (upstreamCalls (handler e req))"
  obtains key p where "reqMethod req = ''POST''" "apiKey e = Some key" "key \<noteq> []"
    "truthy (getProp (reqBody req) ''model'')" "truthy (getProp (reqBody req) ''messages'')"
    "fireworksPayload (numberToString e) (stringPositive e) (reqBody req) = Some p"
    "c = fireworksCall key (truthy (getProp (reqBody req) ''stream'')) p"
    "upstreamCalls (handler e req) = [c]"
  by (cases rule: handler_cases[of req e]) (use assms that in \<open>auto simp: keyOf_Some\<close>)

lemma payload_fireworksCall [simp]: "payload (fireworksCall key streaming p) = p"
  by (simp add: fireworksCall_def)

lemma payload_parameters:
  assumes "fireworksPayload ns sp b = Some p"
  shows "map_of p ''temperature'' = Some (jsOr (getProp b ''temperature'') (JNum (3 / 10)))"
    and "map_of p ''top_p'' = Some (jsOr (getProp b ''top_p'') (JNum (9 / 10)))"
    and "map_of p ''top_k'' = Some (jsOr (getProp b ''top_k'') (JNum 40))"
    and "map_of p ''max_tokens'' = Some (jsOr (getProp b ''max_tokens'') (JNum 8192))"
    and "map_of p ''presence_penalty'' = Some (jsOr (getProp b ''presence_penalty'') (JNum 0))"
    and "map_of p ''frequency_penalty'' = Some (jsOr (getProp b ''frequency_penalty'') (JNum 0))"
    and "map_of p ''stream'' = Some (jsOr (getProp b ''stream'') (JBool False))"
  using assms by (auto simp: fireworksPayload_def Let_def split: option.splits)

lemma payload_required:
  assumes "fireworksPayload ns sp b = Some p"
  shows "map_of p ''model'' = Some (getProp b ''model'')"
    and "map_of p ''messages'' = Some (getProp b ''messages'')"
  using assms by (auto simp: fireworksPayload_def Let_def split: option.splits)

lemma payload_keys:
  assumes "fireworksPayload ns sp b = Some p"
  shows "map fst p =
     [''model'', ''messages'', ''temperature'', ''top_p'', ''top_k'', ''max_tokens'',
      ''presence_penalty'', ''frequency_penalty'', ''stream'']
     @ (if toolsEnabled ns sp (getProp b ''tools'') = Some True
        then ''tools'' # (if truthy (getProp b ''tool_choice'') then [''tool_choice''] else [])
        else [])"
  using assms by (auto simp: fireworksPayload_def Let_def split: option.splits)

lemma payload_tools:
  assumes "fireworksPayload ns sp b = Some p"
    and "toolsEnabled ns sp (getProp b ''tools'') = Some True"
  shows "map_of p ''tools'' = Some (getProp b ''tools'')"
    and "truthy (getProp b ''tool_choice'') \<Longrightarrow>
         map_of p ''tool_choice'' = Some (getProp b ''tool_choice'')"
  using assms by (auto simp: fireworksPayload_def Let_def split: option.splits)

lemma payload_distinct:
  assumes "fireworksPayload ns sp b = Some p"
  shows "distinct (map fst p)"
  by (simp add: payload_keys[OF assms])

subsection \<open>The relay loop\<close>

text \<open>
  A stream that yields the chunks \<open>vs\<close> and then ends or fails: the loop returns, having
  written the decoded chunks in order, then the synthetic event if the stream failed.
\<close>

lemma relayLoop_chunks:
  assumes "\<forall>j < length vs. rd (i + j) = Chunk (vs ! j)"
    and "rd (i + length vs) = Done \<or> rd (i + length vs) = ReadFails msg"
  shows "relayLoop dec rd i d r =
         Some (res_end (r\<lparr>written := written r @ decodeAll dec d vs @
             (if rd (i + length vs) = Done then [] else [syntheticErrorEvent])\<rparr>))"
  using assms
proof (induction vs arbitrary: i d r)
  case Nil
  then show ?case by (subst relayLoop.simps) (auto simp: res_write_def res_end_def)
next
  case (Cons v vs)
  have first: "rd i = Chunk v"
    using Cons.prems(1) by (auto dest: spec[of _ 0])
  have rest: "\<forall>j < length vs. rd (Suc i + j) = Chunk (vs ! j)"
  proof (intro allI impI)
    fix j assume "j < length vs"
    then have "rd (i + Suc j) = Chunk ((v # vs) ! Suc j)"
      using Cons.prems(1) by (metis Suc_less_eq length_Cons)
    then show "rd (Suc i + j) = Chunk (vs ! j)" by simp
  qed
  have fin: "rd (Suc i + length vs) = Done \<or> rd (Suc i + length vs) = ReadFails msg"
    using Cons.prems(2) by simp
  show ?case
    by (subst relayLoop.simps) (simp add: first Cons.IH[OF rest fin] res_write_def)
qed

text \<open>The loop returns only if some read ends the stream; on an endless stream it never does.\<close>

lemma relayLoop_ends:
  assumes "relayLoop dec rd i d r = Some r'"
  shows "\<exists>j. rd j = Done \<or> (\<exists>msg. rd j = ReadFails msg)"
  by (rule relayLoop.raw_induct[where P = "\<lambda>dec rd i d r r'. \<exists>j. rd j = Done \<or> (\<exists>msg. rd j = ReadFails msg)", OF _ assms])
     (auto split: readResult.splits)

lemma relayLoop_endless:
  assumes "\<forall>j. \<exists>v. rd j = Chunk v"
  shows "relayLoop dec rd i d r = None"
proof (cases "relayLoop dec rd i d r")
  case (Some r')
  then obtain j where "rd j = Done \<or> (\<exists>msg. rd j = ReadFails msg)"
    using relayLoop_ends[OF Some] by auto
  moreover obtain v where "rd j = Chunk v"
    using assms by blast
  ultimately show ?thesis by auto
qed simp

lemma streaming_relay_response:
  assumes "upstreamCalls (handler e req) = [c]"
    and "truthy (getProp (reqBody req) ''stream'')"
    and "fetch e c = Resolves resp"
    and "ok resp" and "bodyStream resp = Some rd"
    and "\<forall>j < length vs. rd j = Chunk (vs ! j)"
    and "rd (length vs) = Done \<or> rd (length vs) = ReadFails msg"
  shows "response (handler e req) =
         Some (res_end ((streamingHeaders (cors newRes))\<lparr>written :=
           decodeAll (decode e) (decoderInit e) vs @
             (if rd (length vs) = Done then [] else [syntheticErrorEvent])\<rparr>))"
proof (cases rule: handler_cases[of req e])
  case (stream_relay key p c' resp' rd')
  then have same: "resp' = resp" "rd' = rd"
    using assms by auto
  have "relayLoop (decode e) rd 0 (decoderInit e) (streamingHeaders (cors newRes)) =
        Some (res_end ((streamingHeaders (cors newRes))\<lparr>written :=
          written (streamingHeaders (cors newRes)) @ decodeAll (decode e) (decoderInit e) vs @
             (if rd (0 + length vs) = Done then [] else [syntheticErrorEvent])\<rparr>))"
    using assms(6,7) by (intro relayLoop_chunks[where msg = msg]) simp_all
  then show ?thesis
    using stream_relay same by simp
qed (use assms in auto)

text \<open>A streaming request whose upstream body never ends is never finished.\<close>

lemma streaming_endless_never_finishes:
  assumes "upstreamCalls (handler e req) = [c]"
    and "truthy (getProp (reqBody req) ''stream'')"
    and "fetch e c = Resolves resp"
    and "ok resp" and "bodyStream resp = Some rd"
    and "\<forall>j. \<exists>v. rd j = Chunk v"
  shows "response (handler e req) = None"
proof (cases rule: handler_cases[of req e])
  case (stream_relay key p c' resp' rd')
  then have "rd' = rd"
    using assms by auto
  then show ?thesis
    using stream_relay relayLoop_endless[OF assms(6)] by simp
qed (use assms in auto)

subsection \<open>Upstream errors on the streaming path\<close>

text \<open>
  C1: a streaming request whose upstream call is answered with status 503 and the text
  \<^verbatim>\<open>upstream overloaded\<close> gets status 503 and that text as its message; the same
  answer to the same request without \<^verbatim>\<open>stream\<close> gets the translated message. The
  streaming branch has no case for 503.
\<close>

theorem streaming_503_relays_raw_text:
  "map_option statusCode (response (handler
      (sampleEnv (Some ''sk-test'') (Resolves (sampleResponse 503 ''upstream overloaded'' None)))
      (samplePost [(''stream'', JBool True)]))) = Some 503 \<and>
   map_option jsonBody (response (handler
      (sampleEnv (Some ''sk-test'') (Resolves (sampleResponse 503 ''upstream overloaded'' None)))
      (samplePost [(''stream'', JBool True)]))) =
     Some (Some (JObj [(''error'', JStr ''API request failed''),
                       (''message'', JStr ''upstream overloaded'')])) \<and>
   map_option jsonBody (response (handler
      (sampleEnv (Some ''sk-test'') (Resolves (sampleResponse 503 ''upstream overloaded'' None)))
      (samplePost []))) =
     Some (Some (JObj [(''error'', JStr ''API request failed''),
                       (''message'', JStr ''DeepSeek-V3-0324 service temporarily unavailable. Try again later.'')]))"
  by (simp add: handler_defs sample_defs streamingErrorMessage_def nonStreamingErrorMessage_def)

text \<open>
  For every status the streaming branch relays the status with the message of lines 91 to
  98, which for 503 is the upstream's text, and the response has none of the streaming
  headers: they are set only after the status check.
\<close>

lemma streaming_upstream_error_response:
  assumes "upstreamCalls (handler e req) = [c]"
    and "truthy (getProp (reqBody req) ''stream'')"
    and "fetch e c = Resolves resp"
    and "\<not> ok resp" and "textResult resp = Inr errorText"
  shows "response (handler e req) =
         Some (res_json (apiRequestFailed (streamingErrorMessage (status resp) errorText))
                 (res_status (status resp) (cors newRes)))"
    and "streamingErrorMessage 503 errorText = errorText"
    and "headers (cors newRes) ''Content-Type'' = None"
proof -
  show "response (handler e req) =
         Some (res_json (apiRequestFailed (streamingErrorMessage (status resp) errorText))
                 (res_status (status resp) (cors newRes)))"
    by (cases rule: handler_cases[of req e]) (use assms in auto)
  show "streamingErrorMessage 503 errorText = errorText"
    by (simp add: streamingErrorMessage_def)
  show "headers (cors newRes) ''Content-Type'' = None"
    by (simp add: cors_def newRes_def res_setHeader_def)
qed

subsection \<open>Defaults for falsy parameters\<close>

text \<open>
  C2: in the payload of every upstream call the handler issues, each of
  \<^verbatim>\<open>temperature\<close>, \<^verbatim>\<open>top_p\<close>, \<^verbatim>\<open>top_k\<close>, \<^verbatim>\<open>max_tokens\<close>,
  \<^verbatim>\<open>presence_penalty\<close>, \<^verbatim>\<open>frequency_penalty\<close> that the caller supplied as 0 has
  its default (0.3, 0.9, 40, 8192, 0, 0), \<^verbatim>\<open>stream\<close> supplied as false is false, and
  each of the seven that the caller supplied truthy has the caller's value. The handler
  issues such a call, exactly one, for every POST request that has a truthy \<^verbatim>\<open>model\<close>
  and \<^verbatim>\<open>messages\<close> and arrives while the API key is configured, unless the test of
  \<^verbatim>\<open>tools\<close> at lines 44 and 63 throws.
\<close>

theorem zero_parameters_get_defaults:
  assumes "reqBody req = b"
  shows "(reqMethod req = ''POST'' \<and> (\<exists>key. apiKey e = Some key \<and> key \<noteq> []) \<and>
          truthy (getProp b ''model'') \<and> truthy (getProp b ''messages'') \<and>
          toolsEnabled (numberToString e) (stringPositive e) (getProp b ''tools'') \<noteq> None
          \<longrightarrow> (\<exists>c. upstreamCalls (handler e req) = [c])) \<and>
     (\<forall>c \<in> set (upstreamCalls (handler e req)).
        (getProp b ''temperature'' = JNum 0 \<longrightarrow> map_of (payload c) ''temperature'' = Some (JNum (3 / 10))) \<and>
        (getProp b ''top_p'' = JNum 0 \<longrightarrow> map_of (payload c) ''top_p'' = Some (JNum (9 / 10))) \<and>
        (getProp b ''top_k'' = JNum 0 \<longrightarrow> map_of (payload c) ''top_k'' = Some (JNum 40)) \<and>
        (getProp b ''max_tokens'' = JNum 0 \<longrightarrow> map_of (payload c) ''max_tokens'' = Some (JNum 8192)) \<and>
        (getProp b ''presence_penalty'' = JNum 0 \<longrightarrow> map_of (payload c) ''presence_penalty'' = Some (JNum 0)) \<and>
        (getProp b ''frequency_penalty'' = JNum 0 \<longrightarrow> map_of (payload c) ''frequency_penalty'' = Some (JNum 0)) \<and>
        (getProp b ''stream'' = JBool False \<longrightarrow> map_of (payload c) ''stream'' = Some (JBool False)) \<and>
        (\<forall>k \<in> {''temperature'', ''top_p'', ''top_k'', ''max_tokens'', ''presence_penalty'',
                 ''frequency_penalty'', ''stream''}.
           truthy (getProp b k) \<longrightarrow> map_of (payload c) k = Some (getProp b k)))"
proof (intro conjI impI ballI)
  assume valid: "reqMethod req = ''POST'' \<and> (\<exists>key. apiKey e = Some key \<and> key \<noteq> []) \<and>
          truthy (getProp b ''model'') \<and> truthy (getProp b ''messages'') \<and>
          toolsEnabled (numberToString e) (stringPositive e) (getProp b ''tools'') \<noteq> None"
  then obtain key t where "apiKey e = Some key" "key \<noteq> []"
    "toolsEnabled (numberToString e) (stringPositive e) (getProp (reqBody req) ''tools'') = Some t"
    using assms by auto
  then show "\<exists>c. upstreamCalls (handler e req) = [c]"
    using valid_post_calls[of req e key t] valid assms by auto
next
  fix c assume "c \<in> set (upstreamCalls (handler e req))"
  then obtain key p where
    p: "fireworksPayload (numberToString e) (stringPositive e) b = Some p"
    and c: "payload c = p"
    using assms by (auto elim: issued_call)
  note params = payload_parameters[OF p]
  {
    assume "getProp b ''temperature'' = JNum 0"
    then show "map_of (payload c) ''temperature'' = Some (JNum (3 / 10))"
      using params(1) c by (simp add: jsOr_def)
  next
    assume "getProp b ''top_p'' = JNum 0"
    then show "map_of (payload c) ''top_p'' = Some (JNum (9 / 10))"
      using params(2) c by (simp add: jsOr_def)
  next
    assume "getProp b ''top_k'' = JNum 0"
    then show "map_of (payload c) ''top_k'' = Some (JNum 40)"
      using params(3) c by (simp add: jsOr_def)
  next
    assume "getProp b ''max_tokens'' = JNum 0"
    then show "map_of (payload c) ''max_tokens'' = Some (JNum 8192)"
      using params(4) c by (simp add: jsOr_def)
  next
    assume "getProp b ''presence_penalty'' = JNum 0"
    then show "map_of (payload c) ''presence_penalty'' = Some (JNum 0)"
      using params(5) c by (simp add: jsOr_def)
  next
    assume "getProp b ''frequency_penalty'' = JNum 0"
    then show "map_of (payload c) ''frequency_penalty'' = Some (JNum 0)"
      using params(6) c by (simp add: jsOr_def)
  next
    assume "getProp b ''stream'' = JBool False"
    then show "map_of (payload c) ''stream'' = Some (JBool False)"
      using params(7) c by (simp add: jsOr_def)
  next
    fix k
    assume "k \<in> {''temperature'', ''top_p'', ''top_k'', ''max_tokens'', ''presence_penalty'',
                 ''frequency_penalty'', ''stream''}"
      and "truthy (getProp b k)"
    then show "map_of (payload c) k = Some (getProp b k)"
      using params c by (auto simp: jsOr_def)
  }
qed

theorem zero_parameters_get_defaults_witness:
  "(\<exists>c. upstreamCalls (handler (sampleEnv (Some ''sk-test'') (Rejects ''upstream down''))
           (samplePost [(''temperature'', JNum 0), (''top_p'', JNum 0), (''top_k'', JNum 0),
              (''max_tokens'', JNum 0), (''presence_penalty'', JNum 0),
              (''frequency_penalty'', JNum 0), (''stream'', JBool False)])) = [c] \<and>
        map_of (payload c) ''temperature'' = Some (JNum (3 / 10)) \<and>
        map_of (payload c) ''top_p'' = Some (JNum (9 / 10)) \<and>
        map_of (payload c) ''top_k'' = Some (JNum 40) \<and>
        map_of (payload c) ''max_tokens'' = Some (JNum 8192) \<and>
        map_of (payload c) ''presence_penalty'' = Some (JNum 0) \<and>
        map_of (payload c) ''frequency_penalty'' = Some (JNum 0) \<and>
        map_of (payload c) ''stream'' = Some (JBool False)) \<and>
   (\<exists>c. upstreamCalls (handler (sampleEnv (Some ''sk-test'') (Rejects ''upstream down''))
           (samplePost [(''temperature'', JNum (7 / 10)), (''top_p'', JNum (1 / 2)), (''top_k'', JNum 5),
              (''max_tokens'', JNum 256), (''presence_penalty'', JNum (- 1)),
              (''frequency_penalty'', JNum 2), (''stream'', JBool True)])) = [c] \<and>
        map_of (payload c) ''temperature'' = Some (JNum (7 / 10)) \<and>
        map_of (payload c) ''top_p'' = Some (JNum (1 / 2)) \<and>
        map_of (payload c) ''top_k'' = Some (JNum 5) \<and>
        map_of (payload c) ''max_tokens'' = Some (JNum 256) \<and>
        map_of (payload c) ''presence_penalty'' = Some (JNum (- 1)) \<and>
        map_of (payload c) ''frequency_penalty'' = Some (JNum 2) \<and>
        map_of (payload c) ''stream'' = Some (JBool True))"
proof -
  let ?e = "sampleEnv (Some ''sk-test'') (Rejects ''upstream down'')"
  let ?zero = "samplePost [(''temperature'', JNum 0), (''top_p'', JNum 0), (''top_k'', JNum 0),
              (''max_tokens'', JNum 0), (''presence_penalty'', JNum 0),
              (''frequency_penalty'', JNum 0), (''stream'', JBool False)]"
  let ?own = "samplePost [(''temperature'', JNum (7 / 10)), (''top_p'', JNum (1 / 2)), (''top_k'', JNum 5),
              (''max_tokens'', JNum 256), (''presence_penalty'', JNum (- 1)),
              (''frequency_penalty'', JNum 2), (''stream'', JBool True)]"
  have zero: "\<exists>c. upstreamCalls (handler ?e ?zero) = [c]"
    using zero_parameters_get_defaults[of ?zero "reqBody ?zero" ?e]
    by (simp add: sampleEnv_def samplePost_def toolsEnabled_def)
  then obtain c0 where c0: "upstreamCalls (handler ?e ?zero) = [c0]" ..
  have own: "\<exists>c. upstreamCalls (handler ?e ?own) = [c]"
    using zero_parameters_get_defaults[of ?own "reqBody ?own" ?e]
    by (simp add: sampleEnv_def samplePost_def toolsEnabled_def)
  then obtain c1 where c1: "upstreamCalls (handler ?e ?own) = [c1]" ..
  show ?thesis
    using zero_parameters_get_defaults[of ?zero "reqBody ?zero" ?e]
      zero_parameters_get_defaults[of ?own "reqBody ?own" ?e]
    unfolding c0 c1
    by (simp add: samplePost_def)
qed

subsection \<open>Upstream errors on the non-streaming path\<close>

text \<open>
  C3, as the code has it: the handler has called the upstream for a request whose
  \<^verbatim>\<open>stream\<close> is absent or falsy, the upstream has answered with a status \<open>S\<close>
  outside 200..299, and the error text of the answer has been read. The handler responds
  with status \<open>S\<close> and a message: the fixed translation when \<open>S\<close> is 400, 401, 429 or
  503, the upstream's error text unchanged for every other \<open>S\<close>.
\<close>

theorem nonstreaming_upstream_error_is_relayed:
  assumes "upstreamCalls (handler e req) = [c]"
    and "\<not> truthy (getProp (reqBody req) ''stream'')"
    and "fetch e c = Resolves resp"
    and "\<not> ok resp" and "textResult resp = Inr errorText"
  shows "\<exists>r m. response (handler e req) = Some r \<and> ended r \<and> statusCode r = status resp \<and>
           jsonBody r = Some (JObj [(''error'', JStr ''API request failed''), (''message'', JStr m)]) \<and>
           (status resp = 400 \<longrightarrow> m = ''Invalid request format for DeepSeek-V3-0324. Check parameters.'') \<and>
           (status resp = 401 \<longrightarrow> m = ''Invalid API key or insufficient permissions for DeepSeek-V3-0324.'') \<and>
           (status resp = 429 \<longrightarrow> m = ''Rate limit exceeded. DeepSeek-V3-0324 has usage limits.'') \<and>
           (status resp = 503 \<longrightarrow> m = ''DeepSeek-V3-0324 service temporarily unavailable. Try again later.'') \<and>
           (status resp \<notin> {400, 401, 429, 503} \<longrightarrow> m = errorText)"
proof (cases rule: handler_cases[of req e])
  case (plain_error key p c' resp' errorText')
  then have "resp' = resp" "errorText' = errorText"
    using assms by auto
  then show ?thesis
    using plain_error by (simp add: apiRequestFailed_def nonStreamingErrorMessage_def)
qed (use assms in auto)

theorem nonstreaming_upstream_error_is_relayed_witness:
  "(\<exists>r. response (handler (sampleEnv (Some ''sk-test'') (Resolves (sampleResponse 503 ''upstream overloaded'' None)))
                    (samplePost [])) = Some r \<and>
        ended r \<and> statusCode r = 503 \<and>
        jsonBody r = Some (JObj [(''error'', JStr ''API request failed''),
          (''message'', JStr ''DeepSeek-V3-0324 service temporarily unavailable. Try again later.'')])) \<and>
   (\<exists>r. response (handler (sampleEnv (Some ''sk-test'') (Resolves (sampleResponse 500 ''upstream exploded'' None)))
                    (samplePost [(''stream'', JBool False)])) = Some r \<and>
        ended r \<and> statusCode r = 500 \<and>
        jsonBody r = Some (JObj [(''error'', JStr ''API request failed''),
          (''message'', JStr ''upstream exploded'')]))"
proof -
  let ?e1 = "sampleEnv (Some ''sk-test'') (Resolves (sampleResponse 503 ''upstream overloaded'' None))"
  let ?q1 = "samplePost []"
  let ?e2 = "sampleEnv (Some ''sk-test'') (Resolves (sampleResponse 500 ''upstream exploded'' None))"
  let ?q2 = "samplePost [(''stream'', JBool False)]"
  obtain p1 where c1: "upstreamCalls (handler ?e1 ?q1) =
      [fireworksCall ''sk-test'' (truthy (getProp (reqBody ?q1) ''stream'')) p1]"
    using valid_post_calls[of ?q1 ?e1 "''sk-test''" False] by (auto simp: sample_defs)
  obtain p2 where c2: "upstreamCalls (handler ?e2 ?q2) =
      [fireworksCall ''sk-test'' (truthy (getProp (reqBody ?q2) ''stream'')) p2]"
    using valid_post_calls[of ?q2 ?e2 "''sk-test''" False] by (auto simp: sample_defs)
  show ?thesis
    using nonstreaming_upstream_error_is_relayed
        [OF c1, of "sampleResponse 503 ''upstream overloaded'' None" "''upstream overloaded''"]
      nonstreaming_upstream_error_is_relayed
        [OF c2, of "sampleResponse 500 ''upstream exploded'' None" "''upstream exploded''"]
    by (simp add: sample_defs ok_def)
qed

text \<open>
  C3 as stated, for every non-success answer of the upstream, fails when the error text
  cannot be read: the upstream answers 503, \<^verbatim>\<open>response.text()\<close> rejects with the
  message \<^verbatim>\<open>terminated\<close>, and the handler, having issued its one call, responds with
  status 500 and the category \<^verbatim>\<open>Internal server error\<close>.
\<close>

theorem nonstreaming_unreadable_error_text:
  "length (upstreamCalls (handler
      (sampleEnv (Some ''sk-test'')
         (Resolves ((sampleResponse 503 [] None)\<lparr>textResult := Inl ''terminated''\<rparr>)))
      (samplePost []))) = 1 \<and>
   map_option statusCode (response (handler
      (sampleEnv (Some ''sk-test'')
         (Resolves ((sampleResponse 503 [] None)\<lparr>textResult := Inl ''terminated''\<rparr>)))
      (samplePost []))) = Some 500 \<and>
   map_option jsonBody (response (handler
      (sampleEnv (Some ''sk-test'')
         (Resolves ((sampleResponse 503 [] None)\<lparr>textResult := Inl ''terminated''\<rparr>)))
      (samplePost []))) =
     Some (Some (JObj [(''error'', JStr ''Internal server error''),
                       (''message'', JStr ''terminated'')]))"
  by (simp add: handler_defs sample_defs)

subsection \<open>Validation\<close>

text \<open>
  C4, as the code has it: when the API key is configured and the body is present (neither
  \<^verbatim>\<open>undefined\<close> nor \<^verbatim>\<open>null\<close>), a POST request whose body lacks a truthy
  \<^verbatim>\<open>model\<close> or a truthy \<^verbatim>\<open>messages\<close> is answered with status 400, the category
  \<^verbatim>\<open>Bad request\<close> and a message naming the two fields, and no call to the upstream is
  issued.
\<close>

theorem missing_fields_is_bad_request:
  assumes "reqMethod req = ''POST''"
    and "apiKey e = Some key" and "key \<noteq> []"
    and "reqBody req \<noteq> JUndefined" and "reqBody req \<noteq> JNull"
    and "\<not> truthy (getProp (reqBody req) ''model'') \<or> \<not> truthy (getProp (reqBody req) ''messages'')"
  shows "upstreamCalls (handler e req) = [] \<and>
         (\<exists>r. response (handler e req) = Some r \<and> ended r \<and> statusCode r = 400 \<and>
              jsonBody r = Some (JObj
                [(''error'', JStr ''Bad request''),
                 (''message'', JStr ''Missing required fields: model and messages'')]))"
  using assms by (auto simp: handler_def tryBlock_def)

theorem missing_fields_is_bad_request_witness:
  "upstreamCalls (handler (sampleEnv (Some ''sk-test'') (Rejects ''never asked''))
      \<lparr>reqMethod = ''POST'', reqBody = JObj [(''model'', JStr ''deepseek-v3''), (''messages'', JStr [])]\<rparr>) = [] \<and>
   (\<exists>r. response (handler (sampleEnv (Some ''sk-test'') (Rejects ''never asked''))
      \<lparr>reqMethod = ''POST'', reqBody = JObj [(''model'', JStr ''deepseek-v3''), (''messages'', JStr [])]\<rparr>) = Some r \<and>
        ended r \<and> statusCode r = 400 \<and>
        jsonBody r = Some (JObj
          [(''error'', JStr ''Bad request''),
           (''message'', JStr ''Missing required fields: model and messages'')]))"
  using missing_fields_is_bad_request
    [of "\<lparr>reqMethod = ''POST'', reqBody = JObj [(''model'', JStr ''deepseek-v3''), (''messages'', JStr [])]\<rparr>"
        "sampleEnv (Some ''sk-test'') (Rejects ''never asked'')" "''sk-test''"]
  by (simp add: sampleEnv_def)

text \<open>
  C4 as stated, for every POST request that lacks a required field, fails twice: without
  an API key a body with no \<^verbatim>\<open>model\<close> is answered with 500, and with a key a request
  with no body at all is answered with 500.
\<close>

theorem missing_fields_not_always_400:
  "map_option statusCode (response (handler (sampleEnv None (Rejects ''never asked''))
      \<lparr>reqMethod = ''POST'', reqBody = JObj [(''messages'', JArr [])]\<rparr>)) = Some 500 \<and>
   map_option statusCode (response (handler (sampleEnv (Some ''sk-test'') (Rejects ''never asked''))
      \<lparr>reqMethod = ''POST'', reqBody = JUndefined\<rparr>)) = Some 500"
  by (simp add: handler_defs sample_defs)

subsection \<open>Tools\<close>

text \<open>
  C5, as the code has it: for a valid POST request, when \<^verbatim>\<open>tools\<close> is a non-empty
  array the payload of the upstream call contains \<^verbatim>\<open>tools\<close>, and contains
  \<^verbatim>\<open>tool_choice\<close> exactly when \<^verbatim>\<open>tool_choice\<close> is truthy; when \<^verbatim>\<open>tools\<close> is
  an empty array, absent or otherwise falsy, the payload has neither key.
\<close>

theorem tools_attached_only_when_nonempty:
  assumes "reqMethod req = ''POST''"
    and "apiKey e = Some key" and "key \<noteq> []"
    and "reqBody req = b"
    and "truthy (getProp b ''model'')"
    and "truthy (getProp b ''messages'')"
  shows "((\<exists>xs. getProp b ''tools'' = JArr xs \<and> xs \<noteq> []) \<longrightarrow>
          (\<exists>c. upstreamCalls (handler e req) = [c] \<and>
             map_of (payload c) ''tools'' = Some (getProp b ''tools'') \<and>
             (truthy (getProp b ''tool_choice'') \<longrightarrow>
                map_of (payload c) ''tool_choice'' = Some (getProp b ''tool_choice'')) \<and>
             (\<not> truthy (getProp b ''tool_choice'') \<longrightarrow> ''tool_choice'' \<notin> fst ` set (payload c)))) \<and>
     (getProp b ''tools'' = JArr [] \<or> \<not> truthy (getProp b ''tools'') \<longrightarrow>
          (\<exists>c. upstreamCalls (handler e req) = [c] \<and>
             ''tools'' \<notin> fst ` set (payload c) \<and> ''tool_choice'' \<notin> fst ` set (payload c)))"
proof (intro conjI impI)
  assume "\<exists>xs. getProp b ''tools'' = JArr xs \<and> xs \<noteq> []"
  then have enabled: "toolsEnabled (numberToString e) (stringPositive e) (getProp b ''tools'') = Some True"
    by auto
  then obtain p where
    p: "fireworksPayload (numberToString e) (stringPositive e) b = Some p"
    and calls: "upstreamCalls (handler e req) = [fireworksCall key (truthy (getProp b ''stream'')) p]"
    using valid_post_calls[of req e key True] assms by auto
  have "fst ` set p = set (map fst p)" by simp
  then have "\<not> truthy (getProp b ''tool_choice'') \<Longrightarrow> ''tool_choice'' \<notin> fst ` set p"
    using payload_keys[OF p] enabled by simp
  then show "\<exists>c. upstreamCalls (handler e req) = [c] \<and>
             map_of (payload c) ''tools'' = Some (getProp b ''tools'') \<and>
             (truthy (getProp b ''tool_choice'') \<longrightarrow>
                map_of (payload c) ''tool_choice'' = Some (getProp b ''tool_choice'')) \<and>
             (\<not> truthy (getProp b ''tool_choice'') \<longrightarrow> ''tool_choice'' \<notin> fst ` set (payload c))"
    using calls payload_tools[OF p enabled] by simp
next
  assume "getProp b ''tools'' = JArr [] \<or> \<not> truthy (getProp b ''tools'')"
  then have disabled: "toolsEnabled (numberToString e) (stringPositive e) (getProp b ''tools'') = Some False"
    by auto
  then obtain p where
    p: "fireworksPayload (numberToString e) (stringPositive e) b = Some p"
    and calls: "upstreamCalls (handler e req) = [fireworksCall key (truthy (getProp b ''stream'')) p]"
    using valid_post_calls[of req e key False] assms by auto
  have "fst ` set p = set (map fst p)" by simp
  then have "''tools'' \<notin> fst ` set p \<and> ''tool_choice'' \<notin> fst ` set p"
    using payload_keys[OF p] disabled by simp
  then show "\<exists>c. upstreamCalls (handler e req) = [c] \<and>
             ''tools'' \<notin> fst ` set (payload c) \<and> ''tool_choice'' \<notin> fst ` set (payload c)"
    using calls by simp
qed

theorem tools_attached_only_when_nonempty_witness:
  "(\<exists>c. upstreamCalls (handler (sampleEnv (Some ''sk-test'') (Rejects ''upstream down''))
           (samplePost [(''tools'', JArr [JObj [(''type'', JStr ''function'')]]),
                        (''tool_choice'', JStr ''auto'')])) = [c] \<and>
        map_of (payload c) ''tools'' = Some (JArr [JObj [(''type'', JStr ''function'')]]) \<and>
        map_of (payload c) ''tool_choice'' = Some (JStr ''auto'')) \<and>
   (\<exists>c. upstreamCalls (handler (sampleEnv (Some ''sk-test'') (Rejects ''upstream down''))
           (samplePost [(''tools'', JArr []), (''tool_choice'', JStr ''auto'')])) = [c] \<and>
        ''tools'' \<notin> fst ` set (payload c) \<and> ''tool_choice'' \<notin> fst ` set (payload c))"
  using tools_attached_only_when_nonempty
    [of "samplePost [(''tools'', JArr [JObj [(''type'', JStr ''function'')]]),
                        (''tool_choice'', JStr ''auto'')]"
        "sampleEnv (Some ''sk-test'') (Rejects ''upstream down'')" "''sk-test''"
        "reqBody (samplePost [(''tools'', JArr [JObj [(''type'', JStr ''function'')]]),
                        (''tool_choice'', JStr ''auto'')])"]
    tools_attached_only_when_nonempty
    [of "samplePost [(''tools'', JArr []), (''tool_choice'', JStr ''auto'')]"
        "sampleEnv (Some ''sk-test'') (Rejects ''upstream down'')" "''sk-test''"
        "reqBody (samplePost [(''tools'', JArr []), (''tool_choice'', JStr ''auto'')])"]
  by (simp add: sampleEnv_def samplePost_def)

text \<open>
  C5 as stated, with \<^verbatim>\<open>tool_choice\<close> attached whenever it is present, fails: a
  request with one tool and \<^verbatim>\<open>tool_choice: ""\<close> has the property, and the payload's
  keys end with \<^verbatim>\<open>tools\<close>.
\<close>

theorem falsy_tool_choice_is_dropped:
  "getProp (reqBody (samplePost [(''tools'', JArr [JObj [(''type'', JStr ''function'')]]),
                                 (''tool_choice'', JStr [])])) ''tool_choice'' = JStr [] \<and>
   map (\<lambda>c. map fst (payload c))
     (upstreamCalls (handler (sampleEnv (Some ''sk-test'') (Rejects ''upstream down''))
        (samplePost [(''tools'', JArr [JObj [(''type'', JStr ''function'')]]),
                     (''tool_choice'', JStr [])]))) =
   [[''model'', ''messages'', ''temperature'', ''top_p'', ''top_k'', ''max_tokens'',
     ''presence_penalty'', ''frequency_penalty'', ''stream'', ''tools'']]"
  by (simp add: handler_defs sample_defs)

subsection \<open>Failure bodies\<close>

text \<open>
  C6, as the code has it: every response the handler finishes is of one of five kinds.
  Two are failures with a JSON body: a body \<^verbatim>\<open>{error, message}\<close>, both strings,
  under status 400 or 500 or the non-success status of the upstream's answer; and the
  405 response, whose body is \<^verbatim>\<open>{error: "Method not allowed"}\<close> alone. The other
  three have status 200: the relayed stream of a streaming request, whether it ended or
  was interrupted and reported in-band, with no JSON body; the preflight, with no body;
  and the upstream's JSON relayed unchanged. The response to a streaming request whose
  upstream answers with a success status and no body (line 115) is left aside.
\<close>

theorem failure_responses_carry_error:
  assumes "response (handler e req) = Some r"
    and "\<not> (\<exists>c resp. upstreamCalls (handler e req) = [c] \<and>
              truthy (getProp (reqBody req) ''stream'') \<and>
              fetch e c = Resolves resp \<and> ok resp \<and> bodyStream resp = None)"
  shows "ended r \<and>
     ((\<exists>category m.
         jsonBody r = Some (JObj [(''error'', JStr category), (''message'', JStr m)]) \<and>
         (statusCode r \<in> {400, 500} \<or>
          (\<exists>c resp. upstreamCalls (handler e req) = [c] \<and> fetch e c = Resolves resp \<and>
              \<not> ok resp \<and> statusCode r = status resp))) \<or>
      (statusCode r = 405 \<and> jsonBody r = Some (JObj [(''error'', JStr ''Method not allowed'')])) \<or>
      (statusCode r = 200 \<and> jsonBody r = None \<and>
         (\<exists>c resp rd. upstreamCalls (handler e req) = [c] \<and>
             truthy (getProp (reqBody req) ''stream'') \<and>
             fetch e c = Resolves resp \<and> ok resp \<and> bodyStream resp = Some rd)) \<or>
      (statusCode r = 200 \<and> jsonBody r = None \<and> written r = [] \<and> reqMethod req = ''OPTIONS'') \<or>
      (statusCode r = 200 \<and>
         (\<exists>c resp data. upstreamCalls (handler e req) = [c] \<and> fetch e c = Resolves resp \<and>
             ok resp \<and> jsonResult resp = Inr data \<and> jsonBody r = Some data)))"
proof (cases rule: handler_cases[of req e])
  case options
  then show ?thesis using assms by auto
next
  case not_allowed
  then show ?thesis using assms by auto
next
  case no_key
  then show ?thesis using assms by auto
next
  case (no_body key)
  then show ?thesis using assms by (auto simp: catchBlock_def)
next
  case (bad_request key)
  then show ?thesis using assms by auto
next
  case (tools_throw key)
  then show ?thesis using assms by (auto simp: catchBlock_def)
next
  case (fetch_rejects key p c msg)
  then show ?thesis using assms by (auto simp: catchBlock_def)
next
  case (text_rejects key p c resp msg)
  then show ?thesis using assms by (auto simp: catchBlock_def)
next
  case (stream_error key p c resp errorText)
  then show ?thesis using assms by (auto simp: apiRequestFailed_def)
next
  case (plain_error key p c resp errorText)
  then show ?thesis using assms by (auto simp: apiRequestFailed_def)
next
  case (stream_no_body key p c resp)
  then show ?thesis using assms(2) by auto
next
  case (stream_relay key p c resp rd)
  then have "relayLoop (decode e) rd 0 (decoderInit e) (streamingHeaders (cors newRes)) = Some r"
    using assms(1) by simp
  from relayLoop_frame[OF this]
  have "statusCode r = 200" "jsonBody r = None" "ended r" by simp_all
  then show ?thesis using stream_relay by auto
next
  case (json_rejects key p c resp msg)
  then show ?thesis using assms by (auto simp: catchBlock_def)
next
  case (json_null key p c resp data)
  then show ?thesis using assms by (auto simp: catchBlock_def)
next
  case (plain_success key p c resp data)
  then show ?thesis using assms by auto
qed

theorem failure_responses_carry_error_witness:
  "response (handler (sampleEnv (Some ''sk-test'') (Rejects ''never asked''))
      \<lparr>reqMethod = ''POST'', reqBody = JObj [(''model'', JStr ''deepseek-v3'')]\<rparr>) =
     Some (res_json (JObj [(''error'', JStr ''Bad request''),
                       (''message'', JStr ''Missing required fields: model and messages'')])
            (res_status 400 (cors newRes))) \<and>
   statusCode (res_json (JObj [(''error'', JStr ''Bad request''),
                       (''message'', JStr ''Missing required fields: model and messages'')])
            (res_status 400 (cors newRes))) = 400 \<and>
   (\<exists>category m. jsonBody (res_json (JObj [(''error'', JStr ''Bad request''),
                       (''message'', JStr ''Missing required fields: model and messages'')])
            (res_status 400 (cors newRes))) =
        Some (JObj [(''error'', JStr category), (''message'', JStr m)]))"
  using failure_responses_carry_error
    [of "sampleEnv (Some ''sk-test'') (Rejects ''never asked'')"
        "\<lparr>reqMethod = ''POST'', reqBody = JObj [(''model'', JStr ''deepseek-v3'')]\<rparr>"
        "res_json (JObj [(''error'', JStr ''Bad request''),
                       (''message'', JStr ''Missing required fields: model and messages'')])
            (res_status 400 (cors newRes))"]
  by (simp add: handler_def tryBlock_def sample_defs)

text \<open>
  C6 as stated, with the body \<^verbatim>\<open>{error, message}\<close> on every failure response, fails
  twice. The body of the 405 response to a GET request is
  \<^verbatim>\<open>{error: "Method not allowed"}\<close>. And a stream whose second read fails is
  answered under status 200 with no JSON body: the chunk, then the synthetic event.
\<close>

theorem failures_without_error_and_message:
  \<open>map_option statusCode (response (handler (sampleEnv (Some ''sk-test'') (Rejects ''never asked''))
      \<lparr>reqMethod = ''GET'', reqBody = JUndefined\<rparr>)) = Some 405 \<and>
   map_option jsonBody (response (handler (sampleEnv (Some ''sk-test'') (Rejects ''never asked''))
      \<lparr>reqMethod = ''GET'', reqBody = JUndefined\<rparr>)) =
     Some (Some (JObj [(''error'', JStr ''Method not allowed'')])) \<and>
   map_option (\<lambda>r. (statusCode r, jsonBody r, written r)) (response (handler
      (sampleEnv (Some ''sk-test'') (Resolves (sampleResponse 200 []
         (Some (streamOf [''data: one''] (ReadFails ''socket hang up''))))))
      (samplePost [(''stream'', JBool True)]))) =
     Some (200, None, [''data: one'', ''data: {"error": "Streaming interrupted"}\<newline>\<newline>''])\<close>
proof -
  let ?rd = "streamOf [''data: one''] (ReadFails ''socket hang up'')"
  let ?e = "sampleEnv (Some ''sk-test'') (Resolves (sampleResponse 200 [] (Some ?rd)))"
  let ?q = "samplePost [(''stream'', JBool True)]"
  obtain p where c: "upstreamCalls (handler ?e ?q) =
      [fireworksCall ''sk-test'' (truthy (getProp (reqBody ?q) ''stream'')) p]"
    using valid_post_calls[of ?q ?e "''sk-test''" False] by (auto simp: sample_defs)
  have "response (handler ?e ?q) =
      Some (res_end ((streamingHeaders (cors newRes))\<lparr>written :=
        decodeAll (decode ?e) (decoderInit ?e) [''data: one''] @
          (if ?rd (length [''data: one'']) = Done then [] else [syntheticErrorEvent])\<rparr>))"
    using streaming_relay_response
      [OF c, of "sampleResponse 200 [] (Some ?rd)" ?rd "[''data: one'']" "''socket hang up''"]
    by (simp add: sample_defs ok_def streamOf_def)
  then show ?thesis
    by (simp add: handler_def sample_defs streamOf_def syntheticErrorEvent_def res_end_def)
qed

subsection \<open>Missing configuration\<close>

text \<open>
  C7: when the environment variable \<^verbatim>\<open>FIREWORKS_API_KEY\<close> is absent, every POST
  request, whatever its body, is answered with status 500 and the configuration message,
  and no call to the upstream is issued.
\<close>

theorem missing_api_key_is_configuration_error:
  assumes "apiKey e = None" and "reqMethod req = ''POST''"
  shows "upstreamCalls (handler e req) = [] \<and>
         (\<exists>r. response (handler e req) = Some r \<and> statusCode r = 500 \<and> ended r \<and>
              jsonBody r = Some (JObj
                [(''error'', JStr ''Server configuration error''),
                 (''message'', JStr ''API key not configured. Please check server environment variables.'')]))"
  using assms by (simp add: handler_def tryBlock_def)

theorem missing_api_key_is_configuration_error_witness:
  "apiKey (sampleEnv None (Rejects ''never asked'')) = None \<and>
   reqMethod (samplePost []) = ''POST'' \<and>
   upstreamCalls (handler (sampleEnv None (Rejects ''never asked'')) (samplePost [])) = [] \<and>
   (\<exists>r. response (handler (sampleEnv None (Rejects ''never asked'')) (samplePost [])) = Some r \<and>
        statusCode r = 500 \<and> ended r \<and>
        jsonBody r = Some (JObj
          [(''error'', JStr ''Server configuration error''),
           (''message'', JStr ''API key not configured. Please check server environment variables.'')]))"
  using missing_api_key_is_configuration_error
    [of "sampleEnv None (Rejects ''never asked'')" "samplePost []"]
  by (simp add: sampleEnv_def samplePost_def)

subsection \<open>The streaming relay\<close>



subsection \<open>CORS headers\<close>

text \<open>
  C9: a streaming request whose upstream call is answered with status 204 and no body
  gets the 500 failure of line 115, and that failure response carries
  \<^verbatim>\<open>Access-Control-Allow-Headers: Content-Type\<close>: the streaming headers of lines 107
  to 112 are set before the body is checked. The other failure of the same branch, for
  an upstream answer 503, carries \<^verbatim>\<open>Content-Type, Authorization\<close>.
\<close>

theorem no_body_failure_has_narrowed_headers:
  "map_option statusCode (response (handler
      (sampleEnv (Some ''sk-test'') (Resolves (sampleResponse 204 [] None)))
      (samplePost [(''stream'', JBool True)]))) = Some 500 \<and>
   map_option jsonBody (response (handler
      (sampleEnv (Some ''sk-test'') (Resolves (sampleResponse 204 [] None)))
      (samplePost [(''stream'', JBool True)]))) =
     Some (Some (JObj [(''error'', JStr ''No response body from DeepSeek-V3-0324 API'')])) \<and>
   map_option (\<lambda>r. headers r ''Access-Control-Allow-Headers'') (response (handler
      (sampleEnv (Some ''sk-test'') (Resolves (sampleResponse 204 [] None)))
      (samplePost [(''stream'', JBool True)]))) = Some (Some ''Content-Type'') \<and>
   map_option (\<lambda>r. headers r ''Access-Control-Allow-Headers'') (response (handler
      (sampleEnv (Some ''sk-test'') (Resolves (sampleResponse 503 ''upstream overloaded'' None)))
      (samplePost [(''stream'', JBool True)]))) = Some (Some ''Content-Type, Authorization'')"
  by (simp add: handler_defs sample_defs streamingHeaders_def cors_def newRes_def
      res_setHeader_def res_status_def res_json_def)

text \<open>
  On every other response the handler finishes, the three headers are as lines 3 to 5
  set them, except that the relayed stream has the narrowed
  \<^verbatim>\<open>Access-Control-Allow-Headers\<close> of line 112.
\<close>

lemma cors_headers_elsewhere:
  assumes "response (handler e req) = Some r"
    and "\<not> (\<exists>c resp. upstreamCalls (handler e req) = [c] \<and>
              truthy (getProp (reqBody req) ''stream'') \<and>
              fetch e c = Resolves resp \<and> ok resp \<and> bodyStream resp = None)"
  shows "headers r ''Access-Control-Allow-Origin'' = Some ''*'' \<and>
         headers r ''Access-Control-Allow-Methods'' = Some ''GET, POST, OPTIONS'' \<and>
         headers r ''Access-Control-Allow-Headers'' =
           Some (if \<exists>c resp rd. upstreamCalls (handler e req) = [c] \<and>
                      truthy (getProp (reqBody req) ''stream'') \<and>
                      fetch e c = Resolves resp \<and> ok resp \<and> bodyStream resp = Some rd
                 then ''Content-Type'' else ''Content-Type, Authorization'')"
proof (cases rule: handler_cases[of req e])
  case (stream_relay key p c resp rd)
  then have "relayLoop (decode e) rd 0 (decoderInit e) (streamingHeaders (cors newRes)) = Some r"
    using assms by simp
  from relayLoop_frame[OF this] have "headers r = headers (streamingHeaders (cors newRes))" by simp
  then show ?thesis using stream_relay by (auto simp: streamingHeaders_headers)
next
  case (stream_no_body key p c resp)
  then show ?thesis using assms(2) by auto
qed (use assms in \<open>auto simp: cors_headers\<close>)

subsection \<open>A request without a body\<close>

text \<open>
  C10, as the code has it: when the API key is configured, a POST request whose body is
  \<^verbatim>\<open>undefined\<close> is answered with status 500 (not 400) and the category
  \<^verbatim>\<open>Internal server error\<close>, the destructuring error having reached the outer
  \<^verbatim>\<open>catch\<close>, and no call to the upstream is issued.
\<close>

theorem absent_body_is_internal_error:
  assumes "reqMethod req = ''POST''"
    and "apiKey e = Some key" and "key \<noteq> []"
    and "reqBody req = JUndefined"
  shows "upstreamCalls (handler e req) = [] \<and>
         (\<exists>r m. response (handler e req) = Some r \<and> ended r \<and> statusCode r = 500 \<and>
              jsonBody r = Some (JObj [(''error'', JStr ''Internal server error''), (''message'', JStr m)]))"
  using assms by (simp add: handler_def tryBlock_def catchBlock_def)

theorem absent_body_is_internal_error_witness:
  "upstreamCalls (handler (sampleEnv (Some ''sk-test'') (Rejects ''never asked''))
      \<lparr>reqMethod = ''POST'', reqBody = JUndefined\<rparr>) = [] \<and>
   (\<exists>r m. response (handler (sampleEnv (Some ''sk-test'') (Rejects ''never asked''))
      \<lparr>reqMethod = ''POST'', reqBody = JUndefined\<rparr>) = Some r \<and>
        ended r \<and> statusCode r = 500 \<and>
        jsonBody r = Some (JObj [(''error'', JStr ''Internal server error''), (''message'', JStr m)]))"
  using absent_body_is_internal_error
    [of "\<lparr>reqMethod = ''POST'', reqBody = JUndefined\<rparr>"
        "sampleEnv (Some ''sk-test'') (Rejects ''never asked'')" "''sk-test''"]
  by (simp add: sampleEnv_def)

text \<open>
  C10 as stated, for every POST request without a body, fails when the API key is absent
  too: the key is checked first, and the category is \<^verbatim>\<open>Server configuration error\<close>.
\<close>

theorem absent_body_without_key_is_configuration_error:
  "map_option jsonBody (response (handler (sampleEnv None (Rejects ''never asked''))
      \<lparr>reqMethod = ''POST'', reqBody = JUndefined\<rparr>)) =
   Some (Some (JObj
     [(''error'', JStr ''Server configuration error''),
      (''message'', JStr ''API key not configured. Please check server environment variables.'')]))"
  by (simp add: handler_defs sample_defs)

end
